theory Spec2Isabelle
  imports Complex_Main "HOL-Library.Word"
begin

section \<open>Go arithmetic and run-time panics\<close>

text \<open>
  The block-fetch cache engine of rufs (\<^verbatim>\<open>fetch.go\<close>) is embedded function by function.
  Go's \<^verbatim>\<open>int\<close> and \<^verbatim>\<open>int64\<close> are modelled as \<^typ>\<open>int\<close>: offsets, sizes and block sizes
  of real content stay far below \<open>2 ^ 63\<close>, so no wrap-around is written out. Go's
  \<^verbatim>\<open>/\<close> and \<^verbatim>\<open>%\<close> truncate towards zero, which \<open>go_div\<close> and \<open>go_mod\<close> spell out.
  Every run-time panic of the source is a value of type \<open>panic\<close>, returned as \<open>Inl\<close>.
\<close>

datatype panic =
    IndexOutOfRange
  | SliceBoundsOutOfRange
  | MakeSliceOutOfRange
  | DivideByZero
  | CloseOfNilChannel
  | CloseOfClosedChannel
  | BlockedForever

definition go_div :: "int \<Rightarrow> int \<Rightarrow> int" where
  "go_div a b = sgn a * sgn b * (\<bar>a\<bar> div \<bar>b\<bar>)"

definition go_mod :: "int \<Rightarrow> int \<Rightarrow> int" where
  "go_mod a b = a - b * go_div a b"

definition in_range :: "'a list \<Rightarrow> int \<Rightarrow> bool" where
  "in_range xs i = (0 \<le> i \<and> i < int (length xs))"

section \<open>Data model\<close>

type_synonym byte = "8 word"

text \<open>A channel is the identity of the object \<^verbatim>\<open>make(chan void)\<close> returned.\<close>

type_synonym chan = nat

text \<open>An open connection to a peer; the client type is not part of the sources.\<close>

type_synonym RUFSClient = nat

datatype error =
    ErrInterrupted
  | EOF
  | ErrNoPeer \<comment> \<open>\<^verbatim>\<open>didn't find peer with file\<close>, from \<^verbatim>\<open>NewHandle\<close>\<close>
  | ErrNoPeerFetch \<comment> \<open>\<^verbatim>\<open>Couldn't find peer with file\<close>, from \<^verbatim>\<open>realFetch\<close>\<close>
  | ErrRemote string \<comment> \<open>an error of a collaborator (transport, remote peer)\<close>

text \<open>
  The collaborators that are not in the sources are parameters: \<open>dial addr name\<close> is
  \<^verbatim>\<open>NewRUFSClient(addr, getTlsConfig(.., name))\<close>, \<open>ping c i\<close> the outcome of the \<open>i\<close>-th
  \<^verbatim>\<open>Ping\<close> on client \<open>c\<close>, \<open>rtt c\<close> the time measured around the second ping, and
  \<open>rpc_read c hash offset len\<close> the reply of \<^verbatim>\<open>client.Read\<close> (its \<^verbatim>\<open>Data\<close> may be nil).
\<close>

record net =
  dial :: "string \<Rightarrow> string \<Rightarrow> error + RUFSClient"
  ping :: "RUFSClient \<Rightarrow> nat \<Rightarrow> error option"
  rtt :: "RUFSClient \<Rightarrow> nat"
  rpc_read :: "RUFSClient \<Rightarrow> string \<Rightarrow> int \<Rightarrow> int \<Rightarrow> error + byte list option"

record pfPeer =
  ident :: string
  client :: RUFSClient
  latency :: "nat option"

record Fetcher =
  peers :: "string \<rightharpoonup> pfPeer"
  blockSize :: int

text \<open>
  The handle. \<open>size_h\<close> and \<open>peers_h\<close> are the fields \<^verbatim>\<open>size\<close> and \<^verbatim>\<open>peers\<close>. A nil slice or
  channel is \<open>None\<close>. Three fields belong to the Go run time rather than to the struct:
  \<open>chans\<close> counts the channels made so far (the next fresh identity), \<open>closed\<close> holds the
  channels that were closed, and \<open>tasks\<close> lists the block offsets of the goroutines
  spawned by \<^verbatim>\<open>fetch\<close> that have not finished yet. The handle carries its fetcher by
  value; only one handle per fetcher is considered.
\<close>

record pfHandle =
  fetcher :: Fetcher
  hash :: string
  size_h :: int
  peers_h :: "string list"
  cache :: "byte list option list"
  active :: "chan option list"
  lastErr :: "error option"
  chans :: nat
  closed :: "chan set"
  tasks :: "int list"

section \<open>Peers\<close>

text \<open>\<^verbatim>\<open>strings.Split(s, sep)\<close> for a one-character separator.\<close>

fun Split :: "string \<Rightarrow> char \<Rightarrow> string list" where
  "Split [] sep = [[]]"
| "Split (c # cs) sep =
    (if c = sep then [] # Split cs sep
     else (case Split cs sep of
             [] \<Rightarrow> [[c]]
           | w # ws \<Rightarrow> (c # w) # ws))"

text \<open>\<^verbatim>\<open>MeasureLatency\<close>: the peer as updated, and the error returned.\<close>

definition MeasureLatency :: "net \<Rightarrow> pfPeer \<Rightarrow> pfPeer \<times> error option" where
  "MeasureLatency nw r =
    (case ping nw (client r) 0 of
       Some err \<Rightarrow> (r\<lparr>latency := None\<rparr>, Some err)
     | None \<Rightarrow>
        (case ping nw (client r) 1 of
           Some err \<Rightarrow> (r\<lparr>latency := None\<rparr>, Some err)
         | None \<Rightarrow> (r\<lparr>latency := Some (rtt nw (client r))\<rparr>, None)))"

text \<open>
  \<^verbatim>\<open>NewPeer\<close>. \<^verbatim>\<open>ex[1]\<close> panics on an identity without \<^verbatim>\<open>@\<close>. The value of
  \<^verbatim>\<open>r.MeasureLatency()\<close> is dropped, as in the source.
\<close>

definition NewPeer :: "net \<Rightarrow> string \<Rightarrow> panic + (error + pfPeer)" where
  "NewPeer nw idt =
    (let ex = Split idt (CHR ''@'') in
     if length ex < 2 then Inl IndexOutOfRange
     else (case dial nw (ex ! 1) (ex ! 0) of
             Inl err \<Rightarrow> Inr (Inl err)
           | Inr cl \<Rightarrow>
               Inr (Inr (fst (MeasureLatency nw
                 \<lparr>ident = idt, client = cl, latency = None\<rparr>)))))"

text \<open>The loop of \<^verbatim>\<open>NewHandle\<close> over the candidate peers: the registry and \<^verbatim>\<open>found\<close>.\<close>

fun connect_peers ::
  "net \<Rightarrow> (string \<rightharpoonup> pfPeer) \<Rightarrow> string list \<Rightarrow> bool \<Rightarrow> panic + ((string \<rightharpoonup> pfPeer) \<times> bool)"
where
  "connect_peers nw reg [] found = Inr (reg, found)"
| "connect_peers nw reg (p # ps) found =
    (case reg p of
       Some r \<Rightarrow> connect_peers nw reg ps True
     | None \<Rightarrow>
        (case NewPeer nw p of
           Inl pn \<Rightarrow> Inl pn
         | Inr (Inl err) \<Rightarrow> connect_peers nw reg ps found
         | Inr (Inr r) \<Rightarrow> connect_peers nw (reg(p \<mapsto> r)) ps True))"

text \<open>\<^verbatim>\<open>NewHandle\<close>: the fetcher with its registry as updated, and the handle or the error.\<close>

definition NewHandle ::
  "net \<Rightarrow> Fetcher \<Rightarrow> string \<Rightarrow> int \<Rightarrow> string list \<Rightarrow> panic + (Fetcher \<times> (error + pfHandle))"
where
  "NewHandle nw f hs sz ps =
    (if blockSize f = 0 then Inl DivideByZero
     else
       let blocks = go_div sz (blockSize f) + 1 in
       if blocks < 0 then Inl MakeSliceOutOfRange
       else
         (case connect_peers nw (peers f) ps False of
            Inl pn \<Rightarrow> Inl pn
          | Inr (reg, found) \<Rightarrow>
              let f' = f\<lparr>peers := reg\<rparr> in
              if \<not> found then Inr (f', Inl ErrNoPeer)
              else Inr (f', Inr
                \<lparr>fetcher = f', hash = hs, size_h = sz, peers_h = ps,
                 cache = replicate (nat blocks) None,
                 active = replicate (nat blocks) None,
                 lastErr = None, chans = 0, closed = {}, tasks = []\<rparr>)))"

section \<open>Fetching a block\<close>

text \<open>
  \<^verbatim>\<open>fetch\<close>, the part that runs under the caller's lock: a fresh channel goes into the
  slot and a goroutine is spawned.
\<close>

definition fetch :: "pfHandle \<Rightarrow> int \<Rightarrow> panic + pfHandle" where
  "fetch h offset =
    (let bs = blockSize (fetcher h); b = go_div offset bs in
     if bs = 0 then Inl DivideByZero
     else if \<not> in_range (active h) b then Inl IndexOutOfRange
     else Inr (h\<lparr>active := (active h)[nat b := Some (chans h)],
                 chans := Suc (chans h),
                 tasks := tasks h @ [offset]\<rparr>))"

fun realFetch_loop ::
  "net \<Rightarrow> pfHandle \<Rightarrow> int \<Rightarrow> string list \<Rightarrow> error \<Rightarrow> error + byte list option"
where
  "realFetch_loop nw h offset [] retErr = Inl retErr"
| "realFetch_loop nw h offset (p # ps) retErr =
    (case peers (fetcher h) p of
       None \<Rightarrow> realFetch_loop nw h offset ps retErr
     | Some r \<Rightarrow>
        (case rpc_read nw (client r) (hash h) offset (blockSize (fetcher h)) of
           Inl err \<Rightarrow> realFetch_loop nw h offset ps err
         | Inr data \<Rightarrow> Inr data))"

definition realFetch :: "net \<Rightarrow> pfHandle \<Rightarrow> int \<Rightarrow> error + byte list option" where
  "realFetch nw h offset = realFetch_loop nw h offset (peers_h h) ErrNoPeerFetch"

text \<open>
  The goroutine of \<^verbatim>\<open>fetch\<close>, from \<^verbatim>\<open>realFetch\<close> to the unlock, as one step: the result
  is stored (or the error recorded), the channel found in the slot is closed, and the
  goroutine ends.
\<close>

definition fetch_go :: "net \<Rightarrow> pfHandle \<Rightarrow> int \<Rightarrow> panic + pfHandle" where
  "fetch_go nw h offset =
    (let b = go_div offset (blockSize (fetcher h)) in
     case (case realFetch nw h offset of
             Inl err \<Rightarrow> Inr (h\<lparr>lastErr := Some err\<rparr>)
           | Inr buf \<Rightarrow>
               if in_range (cache h) b then Inr (h\<lparr>cache := (cache h)[nat b := buf]\<rparr>)
               else Inl IndexOutOfRange) of
       Inl pn \<Rightarrow> Inl pn
     | Inr h1 \<Rightarrow>
         if \<not> in_range (active h1) b then Inl IndexOutOfRange
         else (case active h1 ! nat b of
                 None \<Rightarrow> Inl CloseOfNilChannel
               | Some c \<Rightarrow>
                   if c \<in> closed h1 then Inl CloseOfClosedChannel
                   else Inr (h1\<lparr>closed := insert c (closed h1),
                                tasks := remove1 offset (tasks h1)\<rparr>)))"

section \<open>Read\<close>

text \<open>The loop that lists the start offsets of the needed blocks.\<close>

function block_range :: "int \<Rightarrow> int \<Rightarrow> int \<Rightarrow> int list" where
  "block_range b hi bs = (if hi > b then b * bs # block_range (b + 1) hi bs else [])"
  by pat_completeness auto
termination
  by (relation "measure (\<lambda>(b, hi, bs). nat (hi - b))") auto

declare block_range.simps [simp del]

text \<open>The loop over the needed blocks, under the lock: launch and collect the markers.\<close>

fun need_loop ::
  "pfHandle \<Rightarrow> int list \<Rightarrow> chan option list \<Rightarrow> panic + (pfHandle \<times> chan option list)"
where
  "need_loop h [] unfetched = Inr (h, unfetched)"
| "need_loop h (off # os) unfetched =
    (let b = go_div off (blockSize (fetcher h)) in
     if \<not> in_range (cache h) b then Inl IndexOutOfRange
     else if cache h ! nat b = None then
       (if \<not> in_range (active h) b then Inl IndexOutOfRange
        else (case (if active h ! nat b = None then fetch h off else Inr h) of
                Inl pn \<Rightarrow> Inl pn
              | Inr h' \<Rightarrow> need_loop h' os (unfetched @ [active h' ! nat b])))
     else need_loop h os unfetched)"

text \<open>The purge of the block before the first needed one.\<close>

definition purge :: "pfHandle \<Rightarrow> int list \<Rightarrow> panic + pfHandle" where
  "purge h blocks =
    (case blocks of
       [] \<Rightarrow> Inl IndexOutOfRange
     | first # _ \<Rightarrow>
         let b = go_div first (blockSize (fetcher h)) - 1 in
         if b > 0 then
           (if \<not> in_range (cache h) b then Inl IndexOutOfRange
            else if cache h ! nat b \<noteq> None then
              (if \<not> in_range (active h) b then Inl IndexOutOfRange
               else Inr (h\<lparr>cache := (cache h)[nat b := None],
                           active := (active h)[nat b := None]\<rparr>))
            else Inr h)
         else Inr h)"

text \<open>
  The prefetch loop: \<open>prefetch h base i r\<close> runs the iterations \<open>i, i + 1, ..\<close>, \<open>r\<close> of
  them, where \<open>base\<close> is the index after the last needed block.
\<close>

fun prefetch :: "pfHandle \<Rightarrow> int \<Rightarrow> nat \<Rightarrow> nat \<Rightarrow> panic + pfHandle" where
  "prefetch h base i 0 = Inr h"
| "prefetch h base i (Suc r) =
    (let bs = blockSize (fetcher h); b = base + int i in
     if b * bs < size_h h then
       (if \<not> in_range (cache h) b then Inl IndexOutOfRange
        else if cache h ! nat b = None then
          (if \<not> in_range (active h) b then Inl IndexOutOfRange
           else if active h ! nat b = None then
             (case fetch h (b * bs) of
                Inl pn \<Rightarrow> Inl pn
              | Inr h' \<Rightarrow> prefetch h' base (Suc i) r)
           else prefetch h base (Suc i) r)
        else prefetch h base (Suc i) r)
     else prefetch h base (Suc i) r)"

text \<open>
  \<^verbatim>\<open>Read\<close> from the block list to the first unlock: the handle as updated, the needed
  blocks and the markers to wait for. \<open>k\<close> is \<^verbatim>\<open>*prefetchBlocks\<close>.
\<close>

definition Read_launch ::
  "nat \<Rightarrow> pfHandle \<Rightarrow> int \<Rightarrow> int \<Rightarrow> panic + (pfHandle \<times> int list \<times> chan option list)"
where
  "Read_launch k h offset n =
    (let bs = blockSize (fetcher h) in
     if bs = 0 then Inl DivideByZero
     else
       let blocks = block_range (go_div offset bs) (go_div (offset + (n + bs) - 1) bs) bs in
       (case need_loop h blocks [] of
          Inl pn \<Rightarrow> Inl pn
        | Inr (h1, unfetched) \<Rightarrow>
           (case purge h1 blocks of
              Inl pn \<Rightarrow> Inl pn
            | Inr h2 \<Rightarrow>
               (case (if k = 0 then Inr h2
                      else prefetch h2 (go_div (last blocks) bs + 1) 0 k) of
                  Inl pn \<Rightarrow> Inl pn
                | Inr h3 \<Rightarrow> Inr (h3, blocks, unfetched)))))"

text \<open>The second locked section: the buffers of the needed blocks, or none if one is missing.\<close>

fun gather :: "pfHandle \<Rightarrow> int list \<Rightarrow> byte list list \<Rightarrow> panic + byte list list option" where
  "gather h [] bufs = Inr (Some bufs)"
| "gather h (off # os) bufs =
    (let b = go_div off (blockSize (fetcher h)) in
     if \<not> in_range (cache h) b then Inl IndexOutOfRange
     else (case cache h ! nat b of
             None \<Rightarrow> Inr None
           | Some buf \<Rightarrow> gather h os (bufs @ [buf])))"

text \<open>The tail cut, the head cut and the assembly of the result.\<close>

definition cut_tail :: "int \<Rightarrow> byte list list \<Rightarrow> panic + byte list list" where
  "cut_tail ct bufs =
    (if ct > 0 then
       (if bufs = [] then Inl IndexOutOfRange
        else
          let l = length bufs - 1 in
          if int (length (bufs ! l)) > ct then Inr (bufs[l := take (nat ct) (bufs ! l)])
          else Inr bufs)
     else Inr bufs)"

definition cut_head :: "int \<Rightarrow> byte list list \<Rightarrow> panic + byte list list" where
  "cut_head bo bufs =
    (if bo > 0 then
       (case bufs of
          [] \<Rightarrow> Inl IndexOutOfRange
        | b0 # rest \<Rightarrow>
            if bo > int (length b0) then Inl SliceBoundsOutOfRange
            else Inr (drop (nat bo) b0 # rest))
     else Inr bufs)"

definition assemble :: "int \<Rightarrow> byte list list \<Rightarrow> panic + byte list" where
  "assemble n bufs =
    (if length bufs = 1 then Inr (bufs ! 0)
     else if n < 0 then Inl MakeSliceOutOfRange
     else Inr (concat bufs))"

definition Read_trim :: "int \<Rightarrow> int list \<Rightarrow> int \<Rightarrow> int \<Rightarrow> byte list list \<Rightarrow> panic + byte list" where
  "Read_trim bs blocks offset n bufs =
    (case blocks of
       [] \<Rightarrow> Inl IndexOutOfRange
     | first # _ \<Rightarrow>
         let bo = offset - first; ct = go_mod (bo + n) bs in
         (case cut_tail ct bufs of
            Inl pn \<Rightarrow> Inl pn
          | Inr bufs1 \<Rightarrow>
             (case cut_head bo bufs1 of
                Inl pn \<Rightarrow> Inl pn
              | Inr bufs2 \<Rightarrow> assemble n bufs2)))"

text \<open>\<^verbatim>\<open>Read\<close> after the wait: the pair \<^verbatim>\<open>([]byte, error)\<close> it returns.\<close>

definition Read_collect ::
  "pfHandle \<Rightarrow> int list \<Rightarrow> int \<Rightarrow> int \<Rightarrow> panic + (byte list option \<times> error option)"
where
  "Read_collect h blocks offset n =
    (if blockSize (fetcher h) = 0 then Inl DivideByZero
     else (case gather h blocks [] of
             Inl pn \<Rightarrow> Inl pn
           | Inr None \<Rightarrow> Inr (None, lastErr h)
           | Inr (Some bufs) \<Rightarrow>
              (case Read_trim (blockSize (fetcher h)) blocks offset n bufs of
                 Inl pn \<Rightarrow> Inl pn
               | Inr ret \<Rightarrow> Inr (Some ret, None))))"

text \<open>Running goroutines to their end, in the order given.\<close>

fun run_list :: "net \<Rightarrow> pfHandle \<Rightarrow> int list \<Rightarrow> panic + pfHandle" where
  "run_list nw h [] = Inr h"
| "run_list nw h (off # os) =
    (case fetch_go nw h off of
       Inl pn \<Rightarrow> Inl pn
     | Inr h' \<Rightarrow> run_list nw h' os)"

definition run_tasks :: "net \<Rightarrow> pfHandle \<Rightarrow> panic + pfHandle" where
  "run_tasks nw h = run_list nw h (tasks h)"

definition all_closed :: "pfHandle \<Rightarrow> chan option list \<Rightarrow> bool" where
  "all_closed h cs = list_all (\<lambda>c. case c of None \<Rightarrow> False | Some i \<Rightarrow> i \<in> closed h) cs"

text \<open>
  \<^verbatim>\<open>Read\<close> as one caller sees it when no other caller interleaves. \<open>ctx_done\<close> says that
  the context was cancelled before the wait: with something to wait for, the read is
  interrupted and the fetches stay in flight. Otherwise, with something to wait for,
  every running fetch comes to its end while the caller waits; a marker that is still
  open then would block the caller for ever. With nothing to wait for the read goes on
  at once and running fetches stay in flight.
\<close>

definition Read ::
  "net \<Rightarrow> bool \<Rightarrow> nat \<Rightarrow> pfHandle \<Rightarrow> int \<Rightarrow> int \<Rightarrow>
    panic + (pfHandle \<times> byte list option \<times> error option)"
where
  "Read nw ctx_done k h offset n =
    (if offset \<ge> size_h h then Inr (h, None, None)
     else (case Read_launch k h offset n of
             Inl pn \<Rightarrow> Inl pn
           | Inr (h1, blocks, unfetched) \<Rightarrow>
               if unfetched = [] then
                 (case Read_collect h1 blocks offset n of
                    Inl pn \<Rightarrow> Inl pn
                  | Inr res \<Rightarrow> Inr (h1, res))
               else if ctx_done then Inr (h1, None, Some ErrInterrupted)
               else (case run_tasks nw h1 of
                       Inl pn \<Rightarrow> Inl pn
                     | Inr h2 \<Rightarrow>
                         if \<not> all_closed h2 unfetched then Inl BlockedForever
                         else (case Read_collect h2 blocks offset n of
                                 Inl pn \<Rightarrow> Inl pn
                               | Inr res \<Rightarrow> Inr (h2, res)))))"

section \<open>Streams\<close>

text \<open>
  \<open>h_s\<close>, \<open>offset_s\<close> are the fields \<^verbatim>\<open>h\<close> and \<^verbatim>\<open>offset\<close>; \<open>ctx_s\<close> tells whether the stream's
  context was cancelled.
\<close>

record pfStream =
  h_s :: pfHandle
  offset_s :: int
  ctx_s :: bool

definition Stream :: "pfHandle \<Rightarrow> int \<Rightarrow> pfStream" where
  "Stream h offset = \<lparr>h_s = h, offset_s = offset, ctx_s = False\<rparr>"

text \<open>\<^verbatim>\<open>copy(dst, src)\<close>: the destination afterwards.\<close>

definition copy :: "byte list \<Rightarrow> byte list \<Rightarrow> byte list" where
  "copy dst src = take (length dst) src @ drop (length src) dst"

text \<open>\<^verbatim>\<open>pfStream.Read\<close>: the stream, the buffer \<open>p\<close>, \<open>n\<close> and \<open>err\<close> afterwards.\<close>

definition Stream_Read ::
  "net \<Rightarrow> nat \<Rightarrow> pfStream \<Rightarrow> byte list \<Rightarrow> panic + (pfStream \<times> byte list \<times> int \<times> error option)"
where
  "Stream_Read nw k s p =
    (case Read nw (ctx_s s) k (h_s s) (offset_s s) (int (length p)) of
       Inl pn \<Rightarrow> Inl pn
     | Inr (h', data, err) \<Rightarrow>
        (case err of
           Some e \<Rightarrow> Inr (s\<lparr>h_s := h'\<rparr>, p, 0, Some e)
         | None \<Rightarrow>
            let d = (case data of None \<Rightarrow> [] | Some d \<Rightarrow> d);
                n = int (length d)
            in Inr (s\<lparr>h_s := h', offset_s := offset_s s + n\<rparr>, copy p d, n,
                    if n < int (length p) then Some EOF else None)))"

definition Stream_Close :: "pfStream \<Rightarrow> pfStream" where
  "Stream_Close s = s\<lparr>ctx_s := True\<rparr>"

section \<open>Concurrent runs\<close>

text \<open>
  The mutex makes every locked section one step. A handle changes by a caller running
  the first locked section of \<^verbatim>\<open>Read\<close>, or by a running fetch coming to its end, in any
  order. A step that panics ends the program and leads nowhere.
\<close>

inductive step :: "pfHandle \<Rightarrow> pfHandle \<Rightarrow> bool" where
  read: "offset < size_h h \<Longrightarrow> Read_launch k h offset n = Inr (h', blocks, unfetched) \<Longrightarrow> step h h'"
| fetched: "off \<in> set (tasks h) \<Longrightarrow> fetch_go nw h off = Inr h' \<Longrightarrow> step h h'"

inductive reachable :: "pfHandle \<Rightarrow> bool" where
  new: "NewHandle nw f hs sz ps = Inr (f', Inr h) \<Longrightarrow> reachable h"
| after: "reachable h \<Longrightarrow> step h h' \<Longrightarrow> reachable h'"

text \<open>Fetches coming to their end, any number of them.\<close>

inductive fetches_end :: "pfHandle \<Rightarrow> pfHandle \<Rightarrow> bool" where
  refl: "fetches_end h h"
| later: "fetches_end h h' \<Longrightarrow> off \<in> set (tasks h') \<Longrightarrow> fetch_go nw h' off = Inr h'' \<Longrightarrow>
    fetches_end h h''"

section \<open>The remote side and example environments\<close>

text \<open>
  \<^verbatim>\<open>RUFSService.Read\<close> of \<^verbatim>\<open>server.go\<close> on a shared file with the given content: seek to the
  offset, read up to \<open>len\<close> bytes, and reply with what was read (the end of the file is
  not an error).
\<close>

definition service_Read :: "byte list \<Rightarrow> int \<Rightarrow> int \<Rightarrow> error + byte list option" where
  "service_Read content offset len =
    (if offset < 0 then Inl (ErrRemote ''seek'')
     else Inr (Some (take (nat len) (drop (nat offset) content))))"

text \<open>A network on which every peer can be dialled, answers pings and serves \<open>content\<close>.\<close>

definition serving :: "byte list \<Rightarrow> net" where
  "serving content =
    \<lparr>dial = (\<lambda>addr name. Inr 0), ping = (\<lambda>c i. None), rtt = (\<lambda>c. 1),
     rpc_read = (\<lambda>c hs offset len. service_Read content offset len)\<rparr>"

definition fetcher4 :: Fetcher where
  "fetcher4 = \<lparr>peers = Map.empty, blockSize = 4\<rparr>"

text \<open>The lengths of the two per-block arrays of the handle a call of \<^verbatim>\<open>NewHandle\<close> returns.\<close>

definition slots :: "panic + (Fetcher \<times> (error + pfHandle)) \<Rightarrow> (nat \<times> nat) option" where
  "slots r =
    (case r of
       Inr (f', Inr h) \<Rightarrow> Some (length (cache h), length (active h))
     | _ \<Rightarrow> None)"

text \<open>
  A network on which peers can be dialled but answer neither pings nor block reads.
\<close>

definition failing :: net where
  "failing =
    \<lparr>dial = (\<lambda>addr name. Inr 0), ping = (\<lambda>c i. Some (ErrRemote ''ping'')), rtt = (\<lambda>c. 1),
     rpc_read = (\<lambda>c hs offset len. Inl (ErrRemote ''io''))\<rparr>"

definition peer4 :: pfPeer where
  "peer4 = \<lparr>ident = ''u@a'', client = 0, latency = Some 1\<rparr>"

definition peer_unprobed :: pfPeer where
  "peer_unprobed = \<lparr>ident = ''u@a'', client = 0, latency = None\<rparr>"

text \<open>
  The handle \<^verbatim>\<open>NewHandle\<close> returns for content of \<open>sz\<close> bytes in blocks of 4 with the one
  peer \<^verbatim>\<open>u@a\<close> (lemma \<open>fresh4_NewHandle\<close>).
\<close>

definition fresh4 :: "int \<Rightarrow> pfHandle" where
  "fresh4 sz =
    \<lparr>fetcher = \<lparr>peers = [''u@a'' \<mapsto> peer4], blockSize = 4\<rparr>,
     hash = ''h'', size_h = sz, peers_h = [''u@a''],
     cache = replicate (nat (sz div 4 + 1)) None,
     active = replicate (nat (sz div 4 + 1)) None,
     lastErr = None, chans = 0, closed = {}, tasks = []\<rparr>"

definition content12 :: "byte list" where
  "content12 = [10, 11, 12, 13, 14, 15, 16, 17, 18, 19, 20, 21]"

text \<open>The handle of 8 bytes of content after the fetch of block 0 failed.\<close>

definition failed0 :: pfHandle where
  "failed0 =
    (fresh4 8)\<lparr>active := [Some 0, None, None], lastErr := Some (ErrRemote ''io''),
      chans := 1, closed := {0}\<rparr>"

text \<open>Reads one after the other, each \<open>(offset, n)\<close>, by a caller that is not cancelled.\<close>

fun Reads :: "net \<Rightarrow> nat \<Rightarrow> pfHandle \<Rightarrow> (int \<times> int) list \<Rightarrow> panic + pfHandle" where
  "Reads nw k h [] = Inr h"
| "Reads nw k h ((offset, n) # rs) =
    (case Read nw False k h offset n of
       Inl pn \<Rightarrow> Inl pn
     | Inr (h', res) \<Rightarrow> Reads nw k h' rs)"

section \<open>Arithmetic\<close>

lemma go_div_nonneg: "0 \<le> a \<Longrightarrow> 0 < b \<Longrightarrow> go_div a b = a div b"
  by (cases "a = 0") (simp_all add: go_div_def)

lemma go_mod_nonneg: "0 \<le> a \<Longrightarrow> 0 < b \<Longrightarrow> go_mod a b = a mod b"
  by (simp add: go_mod_def go_div_nonneg minus_mult_div_eq_mod)

lemma go_mod_dvd: "b dvd a \<Longrightarrow> go_mod a b = 0"
proof -
  assume "b dvd a"
  then have "\<bar>b\<bar> dvd \<bar>a\<bar>" by simp
  then have "\<bar>b\<bar> * (\<bar>a\<bar> div \<bar>b\<bar>) = \<bar>a\<bar>" by simp
  then have "b * (sgn a * sgn b * (\<bar>a\<bar> div \<bar>b\<bar>)) = sgn a * \<bar>a\<bar>"
    by (metis abs_sgn mult.assoc mult.left_commute mult.commute)
  then show ?thesis by (simp add: go_mod_def go_div_def mult_sgn_abs)
qed

lemma ceiling_div:
  "0 < b \<Longrightarrow> \<lceil>of_int a / (of_int b :: real)\<rceil> = (if b dvd a then a div b else a div b + 1)"
  by (simp add: ceiling_divide_eq_div zdiv_zminus1_eq_if dvd_eq_mod_eq_0)

section \<open>Handle construction\<close>

lemma NewHandle_Inr:
  "NewHandle nw f hs sz ps = Inr (f', Inr h) \<Longrightarrow>
    blockSize f \<noteq> 0 \<and> 0 \<le> go_div sz (blockSize f) + 1 \<and>
    cache h = replicate (nat (go_div sz (blockSize f) + 1)) None \<and>
    active h = replicate (nat (go_div sz (blockSize f) + 1)) None \<and>
    lastErr h = None \<and> chans h = 0 \<and> closed h = {} \<and> tasks h = [] \<and>
    size_h h = sz \<and> fetcher h = f' \<and> blockSize f' = blockSize f \<and> peers_h h = ps \<and>
    hash h = hs"
  by (auto simp: NewHandle_def Let_def split: if_splits sum.splits prod.splits)

text \<open>
  C6 (as amended). For content of size \<open>sz \<ge> 0\<close> and a positive block size, the handle
  that \<^verbatim>\<open>NewHandle\<close> returns has a cache array and an in-flight array of exactly
  \<open>sz div blockSize + 1\<close> slots each, the rounded-down quotient plus one. That is one
  slot more than \<open>ceil (sz / blockSize)\<close> when the size is a multiple of the block size,
  and exactly \<open>ceil (sz / blockSize)\<close> slots, with no spare one, when it is not.
\<close>

theorem NewHandle_slots:
  assumes "slots (NewHandle nw f hs sz ps) = Some (nc, na)" and "0 \<le> sz" and "0 < blockSize f"
  shows "int nc = sz div blockSize f + 1 \<and> na = nc \<and>
    int nc = (if blockSize f dvd sz then \<lceil>of_int sz / (of_int (blockSize f) :: real)\<rceil> + 1
              else \<lceil>of_int sz / (of_int (blockSize f) :: real)\<rceil>)"
proof -
  from assms(1) obtain f' h where r: "NewHandle nw f hs sz ps = Inr (f', Inr h)"
    and n: "nc = length (cache h)" "na = length (active h)"
    by (auto simp: slots_def split: sum.splits prod.splits)
  from NewHandle_Inr [OF r] assms(2,3) n
  have 1: "int nc = sz div blockSize f + 1" and 2: "na = nc"
    by (simp_all add: go_div_nonneg)
  show ?thesis using 1 2 assms(3) by (simp add: ceiling_div)
qed

text \<open>
  The theorem at content of 8 bytes in blocks of 4: three slots, one more than the two
  blocks of the content.
\<close>

theorem NewHandle_slots_witness:
  "slots (NewHandle (serving []) fetcher4 ''h'' 8 [''u@a'']) = Some (3, 3) \<and>
   int 3 = 8 div 4 + 1 \<and> (3::nat) = 3 \<and>
   int 3 = \<lceil>of_int 8 / (of_int 4 :: real)\<rceil> + 1"
proof -
  have s: "slots (NewHandle (serving []) fetcher4 ''h'' 8 [''u@a'']) = Some (3, 3)"
    by (simp add: slots_def NewHandle_def fetcher4_def serving_def NewPeer_def
        MeasureLatency_def go_div_def Let_def)
  have b: "blockSize fetcher4 = 4" by (simp add: fetcher4_def)
  from NewHandle_slots [OF s] b show ?thesis using s by simp
qed

text \<open>
  C6 as stated fails: content of 5 bytes in blocks of 4 gets two slots, which is
  \<open>ceil (5 / 4)\<close> and not \<open>ceil (5 / 4) + 1 = 3\<close>; nothing is allocated beyond what the
  content needs.
\<close>

theorem NewHandle_slots_counterexample:
  "slots (NewHandle (serving []) fetcher4 ''h'' 5 [''u@a'']) = Some (2, 2) \<and>
   (2::int) \<noteq> \<lceil>of_int 5 / (of_int 4 :: real)\<rceil> + 1"
  by (simp add: slots_def NewHandle_def fetcher4_def serving_def NewPeer_def
      MeasureLatency_def go_div_def Let_def)

lemma fresh4_NewHandle:
  "0 \<le> sz \<Longrightarrow> NewHandle (serving c) fetcher4 ''h'' sz [''u@a''] =
     Inr (\<lparr>peers = [''u@a'' \<mapsto> peer4], blockSize = 4\<rparr>, Inr (fresh4 sz))"
  by (simp add: NewHandle_def fetcher4_def serving_def NewPeer_def MeasureLatency_def
      go_div_nonneg Let_def fresh4_def peer4_def)

section \<open>Peer creation\<close>

lemma connect_peers_keeps:
  "connect_peers nw reg ps found = Inr (reg', found') \<Longrightarrow> reg p = Some r \<Longrightarrow> reg' p = Some r"
proof (induction ps arbitrary: reg found)
  case Nil
  then show ?case by simp
next
  case (Cons q ps)
  show ?case
  proof (cases "reg q")
    case (Some rq)
    with Cons.prems have "connect_peers nw reg ps True = Inr (reg', found')" by simp
    from Cons.IH [OF this Cons.prems(2)] show ?thesis .
  next
    case None
    then have qp: "q \<noteq> p" using Cons.prems(2) by auto
    show ?thesis
    proof (cases "NewPeer nw q")
      case (Inl pn)
      with None Cons.prems show ?thesis by simp
    next
      case (Inr res)
      show ?thesis
      proof (cases res)
        case (Inl err)
        with None Inr Cons.prems have "connect_peers nw reg ps found = Inr (reg', found')"
          by simp
        from Cons.IH [OF this Cons.prems(2)] show ?thesis .
      next
        case (Inr rq)
        with None \<open>NewPeer nw q = Inr res\<close> Cons.prems
        have c: "connect_peers nw (reg(q \<mapsto> rq)) ps True = Inr (reg', found')" by simp
        have "(reg(q \<mapsto> rq)) p = Some r" using qp Cons.prems(2) by simp
        from Cons.IH [OF c this] show ?thesis .
      qed
    qed
  qed
qed

lemma connect_peers_found:
  "connect_peers nw reg ps found = Inr (reg', found') \<Longrightarrow> found \<Longrightarrow> found'"
  by (induction ps arbitrary: reg found) (auto split: option.splits sum.splits)

lemma connect_peers_adds:
  "connect_peers nw reg ps found = Inr (reg', found') \<Longrightarrow> p \<in> set ps \<Longrightarrow> reg p = None \<Longrightarrow>
    NewPeer nw p = Inr (Inr r) \<Longrightarrow> reg' p = Some r \<and> found'"
proof (induction ps arbitrary: reg found)
  case Nil
  then show ?case by simp
next
  case (Cons q ps)
  show ?case
  proof (cases "q = p")
    case True
    with Cons.prems have "connect_peers nw (reg(p \<mapsto> r)) ps True = Inr (reg', found')"
      by simp
    then show ?thesis
      using connect_peers_keeps [of nw "reg(p \<mapsto> r)" ps True reg' found' p r]
        connect_peers_found [of nw "reg(p \<mapsto> r)" ps True reg' found']
      by simp
  next
    case False
    with Cons.prems have p: "p \<in> set ps" by simp
    show ?thesis
    proof (cases "reg q")
      case (Some rq)
      with Cons.prems have "connect_peers nw reg ps True = Inr (reg', found')" by simp
      from Cons.IH [OF this p Cons.prems(3,4)] show ?thesis .
    next
      case None
      show ?thesis
      proof (cases "NewPeer nw q")
        case (Inl pn)
        with None Cons.prems show ?thesis by simp
      next
        case (Inr res)
        show ?thesis
        proof (cases res)
          case (Inl err)
          with None Inr Cons.prems have "connect_peers nw reg ps found = Inr (reg', found')"
            by simp
          from Cons.IH [OF this p Cons.prems(3,4)] show ?thesis .
        next
          case (Inr rq)
          with None \<open>NewPeer nw q = Inr res\<close> Cons.prems
          have c: "connect_peers nw (reg(q \<mapsto> rq)) ps True = Inr (reg', found')" by simp
          have "(reg(q \<mapsto> rq)) p = None" using False Cons.prems(3) by simp
          from Cons.IH [OF c p this Cons.prems(4)] show ?thesis .
        qed
      qed
    qed
  qed
qed

text \<open>
  C7 (as amended). When a peer link is created and one of the two liveness probes
  fails, \<^verbatim>\<open>MeasureLatency\<close> leaves the latency unset and returns the error, but \<^verbatim>\<open>NewPeer\<close>
  drops that error: it returns the link and no error. So \<^verbatim>\<open>NewHandle\<close>, which keeps
  every link that \<^verbatim>\<open>NewPeer\<close> returns without error, retains the link in the registry and
  counts the peer as found.
\<close>

theorem NewPeer_probe_failure:
  assumes "Split idt (CHR ''@'') = name # addr # rest"
    and "dial nw addr name = Inr cl"
    and "ping nw cl 0 \<noteq> None \<or> ping nw cl 1 \<noteq> None"
  shows "fst (MeasureLatency nw \<lparr>ident = idt, client = cl, latency = None\<rparr>)
      = \<lparr>ident = idt, client = cl, latency = None\<rparr> \<and>
    snd (MeasureLatency nw \<lparr>ident = idt, client = cl, latency = None\<rparr>) \<noteq> None \<and>
    NewPeer nw idt = Inr (Inr \<lparr>ident = idt, client = cl, latency = None\<rparr>) \<and>
    (peers f idt = None \<and> idt \<in> set ps \<and> NewHandle nw f hs sz ps = Inr (f', res) \<longrightarrow>
       peers f' idt = Some \<lparr>ident = idt, client = cl, latency = None\<rparr> \<and> res \<noteq> Inl ErrNoPeer)"
proof -
  let ?r = "\<lparr>ident = idt, client = cl, latency = None\<rparr>"
  have m: "fst (MeasureLatency nw ?r) = ?r"
    and e: "snd (MeasureLatency nw ?r) \<noteq> None"
    using assms(3) by (auto simp: MeasureLatency_def split: option.splits)
  have n: "NewPeer nw idt = Inr (Inr ?r)"
    using assms(1,2) m by (simp add: NewPeer_def Let_def)
  have "peers f' idt = Some ?r \<and> res \<noteq> Inl ErrNoPeer"
    if a: "peers f idt = None" "idt \<in> set ps" "NewHandle nw f hs sz ps = Inr (f', res)"
  proof -
    from a(3) obtain reg found where c: "connect_peers nw (peers f) ps False = Inr (reg, found)"
      and f': "f' = f\<lparr>peers := reg\<rparr>" and res: "res = Inl ErrNoPeer \<longrightarrow> \<not> found"
      by (auto simp: NewHandle_def Let_def split: if_splits sum.splits prod.splits)
    from connect_peers_adds [OF c a(2) a(1) n] f' res show ?thesis by auto
  qed
  with m e n show ?thesis by blast
qed

text \<open>
  The theorem on the network whose peers fail every ping: the link of \<^verbatim>\<open>u@a\<close> is returned
  without latency and without error, and the new handle's fetcher has it in the registry.
\<close>

theorem NewPeer_probe_failure_witness:
  "Split ''u@a'' (CHR ''@'') = [''u'', ''a''] \<and> dial failing ''a'' ''u'' = Inr 0 \<and>
   ping failing 0 0 \<noteq> None \<and>
   snd (MeasureLatency failing \<lparr>ident = ''u@a'', client = 0, latency = None\<rparr>) \<noteq> None \<and>
   NewPeer failing ''u@a'' = Inr (Inr \<lparr>ident = ''u@a'', client = 0, latency = None\<rparr>) \<and>
   NewHandle failing fetcher4 ''h'' 8 [''u@a''] =
     Inr (\<lparr>peers = [''u@a'' \<mapsto> peer_unprobed], blockSize = 4\<rparr>,
          Inr ((fresh4 8)\<lparr>fetcher := \<lparr>peers = [''u@a'' \<mapsto> peer_unprobed], blockSize = 4\<rparr>\<rparr>)) \<and>
   peers \<lparr>peers = [''u@a'' \<mapsto> peer_unprobed], blockSize = 4\<rparr> ''u@a''
     = Some \<lparr>ident = ''u@a'', client = 0, latency = None\<rparr>"
proof -
  have s: "Split ''u@a'' (CHR ''@'') = [''u'', ''a'']" by simp
  have d: "dial failing ''a'' ''u'' = Inr 0" by (simp add: failing_def)
  have p: "ping failing 0 0 \<noteq> None \<or> ping failing 0 1 \<noteq> None" by (simp add: failing_def)
  have h: "NewHandle failing fetcher4 ''h'' 8 [''u@a''] =
     Inr (\<lparr>peers = [''u@a'' \<mapsto> peer_unprobed], blockSize = 4\<rparr>,
          Inr ((fresh4 8)\<lparr>fetcher := \<lparr>peers = [''u@a'' \<mapsto> peer_unprobed], blockSize = 4\<rparr>\<rparr>))"
    by (simp add: NewHandle_def fetcher4_def failing_def NewPeer_def MeasureLatency_def
        go_div_def Let_def fresh4_def peer_unprobed_def)
  have f: "peers fetcher4 ''u@a'' = None" by (simp add: fetcher4_def)
  have i: "''u@a'' \<in> set [''u@a'']" by simp
  note t = NewPeer_probe_failure [where f = fetcher4 and ps = "[''u@a'']" and hs = "''h''"
      and sz = 8 and f' = "\<lparr>peers = [''u@a'' \<mapsto> peer_unprobed], blockSize = 4\<rparr>"
      and res = "Inr ((fresh4 8)\<lparr>fetcher := \<lparr>peers = [''u@a'' \<mapsto> peer_unprobed], blockSize = 4\<rparr>\<rparr>)",
      OF s d p]
  have g: "peers \<lparr>peers = [''u@a'' \<mapsto> peer_unprobed], blockSize = 4\<rparr> ''u@a''
     = Some \<lparr>ident = ''u@a'', client = 0, latency = None\<rparr>"
    using t f i h by blast
  have q: "ping failing 0 0 \<noteq> None" by (simp add: failing_def)
  from t s d q h g show ?thesis by blast
qed

text \<open>
  C7 as stated fails: on that network the probe fails, \<^verbatim>\<open>MeasureLatency\<close> returns the error,
  and yet \<^verbatim>\<open>NewPeer\<close> returns the link, not an error.
\<close>

theorem NewPeer_probe_failure_counterexample:
  "snd (MeasureLatency failing \<lparr>ident = ''u@a'', client = 0, latency = None\<rparr>)
      = Some (ErrRemote ''ping'') \<and>
   NewPeer failing ''u@a'' = Inr (Inr \<lparr>ident = ''u@a'', client = 0, latency = None\<rparr>)"
  by (simp add: NewPeer_def MeasureLatency_def failing_def Let_def)

section \<open>Read on examples\<close>

lemmas eval_defs = fresh4_def peer4_def content12_def serving_def failing_def service_Read_def
  Read_def Read_launch_def Read_collect_def Read_trim_def cut_tail_def cut_head_def assemble_def
  purge_def fetch_def fetch_go_def realFetch_def run_tasks_def all_closed_def in_range_def
  go_div_def go_mod_def Let_def block_range.simps

text \<open>
  C1. The claim promises at least \<open>min n (size - offset)\<close> bytes for every request length
  \<open>n\<close>. For \<open>n = 0\<close> at a block boundary the block list is empty and \<^verbatim>\<open>blocks[0]\<close> panics:
  content of 12 bytes in blocks of 4, read of 0 bytes at offset 4.
\<close>

theorem Read_zero_length_panics:
  "Read (serving content12) False 0 (fresh4 12) 4 0 = Inl IndexOutOfRange"
  by (simp add: eval_defs)

text \<open>
  C2. The requested range is not clipped to the content size: content of 4 bytes in
  blocks of 4 has two slots, a read of 9 bytes at offset 0 needs the blocks 0, 1 and 2,
  and \<^verbatim>\<open>h.cache[2]\<close> is out of range. A read of 0 bytes at offset 0 indexes the empty
  block list.
\<close>

theorem Read_past_end_panics:
  "Read (serving content12) False 0 (fresh4 4) 0 9 = Inl IndexOutOfRange \<and>
   Read (serving content12) False 0 (fresh4 4) 0 0 = Inl IndexOutOfRange"
  by (simp add: eval_defs)

text \<open>
  C3. After the fetch of block 0 failed on all peers the marker stays in the slot,
  closed. A later read of block 0, on a network that would now serve the block,
  launches no fetch (the handle is unchanged, no goroutine runs) and returns the
  recorded error.
\<close>

theorem Read_failed_block_not_retried:
  "Read failing False 0 (fresh4 8) 0 4 = Inr (failed0, None, Some (ErrRemote ''io'')) \<and>
   active failed0 ! 0 = Some 0 \<and> tasks failed0 = [] \<and>
   Read (serving content12) False 0 failed0 0 4 = Inr (failed0, None, Some (ErrRemote ''io''))"
  by (simp add: eval_defs eval_nat_numeral failed0_def)

text \<open>
  C5. Reading block 1 after block 0 leaves block 0 in the cache, because the purge
  asks for an index above 0; reading block 2 after block 1 does evict block 1.
\<close>

theorem Read_block0_never_evicted:
  "map_sum id cache (Reads (serving content12) 0 (fresh4 12) [(0, 4), (4, 4)])
     = Inr [Some [10, 11, 12, 13], Some [14, 15, 16, 17], None, None] \<and>
   map_sum id cache (Reads (serving content12) 0 (fresh4 12) [(4, 4), (8, 4)])
     = Inr [None, None, Some [18, 19, 20, 21], None]"
  by (simp add: eval_defs eval_nat_numeral)

section \<open>Trimming\<close>

lemma block_range_hd: "block_range b hi bs = first # rest \<Longrightarrow> first = b * bs"
  by (subst (asm) block_range.simps) (simp split: if_splits)

lemma cut_tail_zero: "cut_tail 0 bufs = Inr bufs"
  by (simp add: cut_tail_def)

lemma cut_tail_changes:
  assumes "cut_tail ct bufs = Inr bufs'"
  shows "(bufs' \<noteq> bufs) = (0 < ct \<and> ct < int (length (last bufs)))"
proof (cases "0 < ct")
  case False
  with assms show ?thesis by (simp add: cut_tail_def)
next
  case True
  with assms have ne: "bufs \<noteq> []" by (auto simp: cut_tail_def)
  then have l: "bufs ! (length bufs - 1) = last bufs" by (simp add: last_conv_nth)
  show ?thesis
  proof (cases "ct < int (length (last bufs))")
    case False
    with assms True ne l show ?thesis by (simp add: cut_tail_def Let_def)
  next
    case lt: True
    with assms True ne l
    have b: "bufs' = bufs[length bufs - 1 := take (nat ct) (last bufs)]"
      by (simp add: cut_tail_def Let_def)
    have n: "nat ct < length (last bufs)" using lt True by linarith
    have "length (bufs' ! (length bufs - 1)) = nat ct"
      using ne n by (simp add: b)
    moreover have "length (bufs ! (length bufs - 1)) \<noteq> nat ct" using l n by simp
    ultimately have "bufs' \<noteq> bufs" by auto
    with True lt show ?thesis by simp
  qed
qed

text \<open>
  C9. When the requested end \<open>offset + n\<close> is a multiple of the block size, the cut point
  \<open>(bo + n) % bs\<close> is zero, the tail cut leaves every buffer as it is, and the result is
  assembled from the buffers with only the head cut. Whatever the cut point \<open>ct\<close>, the
  tail cut changes the buffers only if \<open>ct\<close> is positive and smaller than the length of
  the last buffer.
\<close>

theorem Read_trim_boundary:
  assumes "bs dvd offset + n" and "block_range (go_div offset bs) hi bs = first # rest"
  shows "go_mod (offset - first + n) bs = 0 \<and>
    cut_tail (go_mod (offset - first + n) bs) bufs = Inr bufs \<and>
    Read_trim bs (first # rest) offset n bufs =
      (case cut_head (offset - first) bufs of Inl pn \<Rightarrow> Inl pn | Inr bufs2 \<Rightarrow> assemble n bufs2) \<and>
    (cut_tail ct bufs = Inr bufs' \<longrightarrow> (bufs' \<noteq> bufs) = (0 < ct \<and> ct < int (length (last bufs))))"
proof -
  have "first = go_div offset bs * bs" using assms(2) by (rule block_range_hd)
  then have "bs dvd offset - first + n" using assms(1)
    by (metis add_diff_eq diff_add_eq dvd_diff dvd_triv_right)
  then have z: "go_mod (offset - first + n) bs = 0" by (rule go_mod_dvd)
  have t: "cut_tail (go_mod (offset - first + n) bs) bufs = Inr bufs"
    by (simp add: z cut_tail_zero)
  have r: "Read_trim bs (first # rest) offset n bufs =
      (case cut_head (offset - first) bufs of Inl pn \<Rightarrow> Inl pn | Inr bufs2 \<Rightarrow> assemble n bufs2)"
    by (simp add: z cut_tail_zero Read_trim_def)
  from z t r cut_tail_changes [of ct bufs bufs'] show ?thesis by blast
qed

text \<open>
  The theorem on a read of 6 bytes at offset 2 in blocks of 4, which ends at 8; and the
  tail cut at 3, which shortens the last buffer.
\<close>

theorem Read_trim_boundary_witness:
  "(4::int) dvd 2 + 6 \<and> block_range (go_div 2 4) 2 4 = [0, 4] \<and>
   go_mod (2 - 0 + 6) 4 = 0 \<and>
   cut_tail (go_mod (2 - 0 + 6) 4) [[10, 11, 12, 13], [14, 15, 16, 17]]
     = Inr [[10, 11, 12, 13], [14, 15, 16, 17]] \<and>
   Read_trim 4 [0, 4] 2 6 [[10, 11, 12, 13], [14, 15, 16, 17]] = Inr [12, 13, 14, 15, 16, 17] \<and>
   cut_tail 3 [[10, 11, 12, 13], [14, 15, 16, 17]] = Inr [[10, 11, 12, 13], [14, 15, 16]] \<and>
   (0 < (3::int) \<and> (3::int) < int (length (last [[10, 11, 12, 13], [14, 15, 16, 17 :: byte]])))"
proof -
  have d: "(4::int) dvd 2 + 6" by simp
  have b: "block_range (go_div 2 4) 2 4 = [0, 4]"
    by (simp add: block_range.simps go_div_def)
  have c: "cut_tail 3 [[10, 11, 12, 13], [14, 15, 16, 17 :: byte]] = Inr [[10, 11, 12, 13], [14, 15, 16]]"
    by (simp add: cut_tail_def eval_nat_numeral)
  from Read_trim_boundary [OF d b, of "[[10, 11, 12, 13], [14, 15, 16, 17]]" 3
      "[[10, 11, 12, 13], [14, 15, 16]]"] b c
  show ?thesis by (simp add: cut_head_def cut_tail_def assemble_def eval_nat_numeral)
qed

section \<open>Streams\<close>

text \<open>
  C10. When the handle's \<^verbatim>\<open>Read\<close> returns an error, the stream's \<^verbatim>\<open>Read\<close> returns 0 and
  that error, leaves the caller's buffer as it was and does not move the stream's
  offset, so the next read of the stream asks for the same range.
\<close>

theorem Stream_Read_error:
  assumes "Read nw (ctx_s s) k (h_s s) (offset_s s) (int (length p)) = Inr (h', data, Some e)"
  shows "Stream_Read nw k s p = Inr (s\<lparr>h_s := h'\<rparr>, p, 0, Some e) \<and>
    offset_s (s\<lparr>h_s := h'\<rparr>) = offset_s s"
  using assms by (simp add: Stream_Read_def)

text \<open>The theorem on a stream whose first block cannot be fetched.\<close>

theorem Stream_Read_error_witness:
  "Read failing (ctx_s (Stream (fresh4 8) 0)) 0 (h_s (Stream (fresh4 8) 0))
      (offset_s (Stream (fresh4 8) 0)) (int (length [0, 0, 0, 0 :: byte]))
     = Inr (failed0, None, Some (ErrRemote ''io'')) \<and>
   Stream_Read failing 0 (Stream (fresh4 8) 0) [0, 0, 0, 0]
     = Inr ((Stream (fresh4 8) 0)\<lparr>h_s := failed0\<rparr>, [0, 0, 0, 0], 0, Some (ErrRemote ''io'')) \<and>
   offset_s ((Stream (fresh4 8) 0)\<lparr>h_s := failed0\<rparr>) = offset_s (Stream (fresh4 8) 0)"
proof -
  have r: "Read failing (ctx_s (Stream (fresh4 8) 0)) 0 (h_s (Stream (fresh4 8) 0))
      (offset_s (Stream (fresh4 8) 0)) (int (length [0, 0, 0, 0 :: byte]))
     = Inr (failed0, None, Some (ErrRemote ''io''))"
    by (simp add: eval_defs eval_nat_numeral failed0_def Stream_def)
  from Stream_Read_error [OF r] r show ?thesis by simp
qed

end
